theory Spec2Isabelle
  imports Complex_Main
begin

section \<open>Numbers\<close>

text \<open>
  The program computes on JavaScript numbers. They are modelled as idealised doubles:
  a finite number is a real (no rounding, no overflow, one unsigned zero), and the three
  special values keep the behaviour the program tests for (\<open>isNaN\<close>,
  \<open>=== Infinity\<close>, comparisons with \<open>NaN\<close> being false).
\<close>

datatype number = NaN | NegInfinity | Finite real | Infinity

fun isNaN :: "number \<Rightarrow> bool" where
  "isNaN NaN = True"
| "isNaN _ = False"

text \<open>\<open>a < b\<close>: false as soon as one side is \<open>NaN\<close>.\<close>

fun num_lt :: "number \<Rightarrow> number \<Rightarrow> bool" where
  "num_lt (Finite x) (Finite y) = (x < y)"
| "num_lt NaN _ = False"
| "num_lt _ NaN = False"
| "num_lt _ NegInfinity = False"
| "num_lt NegInfinity _ = True"
| "num_lt Infinity _ = False"
| "num_lt (Finite x) Infinity = True"

text \<open>\<open>a === b\<close> on numbers.\<close>

definition num_eq :: "number \<Rightarrow> number \<Rightarrow> bool" where
  "num_eq a b = (if isNaN a then False else a = b)"

text \<open>\<open>a <= b\<close>, \<open>a > b\<close>, \<open>a >= b\<close>.\<close>

definition num_le :: "number \<Rightarrow> number \<Rightarrow> bool" where
  "num_le a b = (num_lt a b \<or> num_eq a b)"

definition num_gt :: "number \<Rightarrow> number \<Rightarrow> bool" where
  "num_gt a b = num_lt b a"

definition num_ge :: "number \<Rightarrow> number \<Rightarrow> bool" where
  "num_ge a b = num_le b a"

fun num_neg :: "number \<Rightarrow> number" where
  "num_neg NaN = NaN"
| "num_neg NegInfinity = Infinity"
| "num_neg Infinity = NegInfinity"
| "num_neg (Finite x) = Finite (- x)"

fun num_add :: "number \<Rightarrow> number \<Rightarrow> number" where
  "num_add (Finite x) (Finite y) = Finite (x + y)"
| "num_add NaN _ = NaN"
| "num_add _ NaN = NaN"
| "num_add Infinity NegInfinity = NaN"
| "num_add NegInfinity Infinity = NaN"
| "num_add Infinity _ = Infinity"
| "num_add _ Infinity = Infinity"
| "num_add NegInfinity _ = NegInfinity"
| "num_add _ NegInfinity = NegInfinity"

definition num_sub :: "number \<Rightarrow> number \<Rightarrow> number" where
  "num_sub a b = num_add a (num_neg b)"

text \<open>The infinity of the sign of \<open>x\<close>, and \<open>NaN\<close> for zero (\<open>0 * Infinity\<close>).\<close>

definition signed_infinity :: "real \<Rightarrow> number" where
  "signed_infinity x = (if x = 0 then NaN else if 0 < x then Infinity else NegInfinity)"

fun num_mul :: "number \<Rightarrow> number \<Rightarrow> number" where
  "num_mul (Finite x) (Finite y) = Finite (x * y)"
| "num_mul NaN _ = NaN"
| "num_mul _ NaN = NaN"
| "num_mul (Finite x) Infinity = signed_infinity x"
| "num_mul (Finite x) NegInfinity = signed_infinity (- x)"
| "num_mul Infinity (Finite y) = signed_infinity y"
| "num_mul NegInfinity (Finite y) = signed_infinity (- y)"
| "num_mul Infinity Infinity = Infinity"
| "num_mul NegInfinity NegInfinity = Infinity"
| "num_mul Infinity NegInfinity = NegInfinity"
| "num_mul NegInfinity Infinity = NegInfinity"

text \<open>Division; the one zero of the model divides as \<open>+0\<close> does.\<close>

fun num_div :: "number \<Rightarrow> number \<Rightarrow> number" where
  "num_div (Finite x) (Finite y) = (if y = 0 then signed_infinity x else Finite (x / y))"
| "num_div NaN _ = NaN"
| "num_div _ NaN = NaN"
| "num_div (Finite x) _ = Finite 0"
| "num_div Infinity (Finite y) = (if 0 \<le> y then Infinity else NegInfinity)"
| "num_div NegInfinity (Finite y) = (if 0 \<le> y then NegInfinity else Infinity)"
| "num_div Infinity Infinity = NaN"
| "num_div Infinity NegInfinity = NaN"
| "num_div NegInfinity Infinity = NaN"
| "num_div NegInfinity NegInfinity = NaN"

text \<open>\<open>Math.abs\<close>, \<open>Math.floor\<close>, \<open>Math.ceil\<close>, \<open>Math.log\<close>.\<close>

fun mathAbs :: "number \<Rightarrow> number" where
  "mathAbs NaN = NaN"
| "mathAbs (Finite x) = Finite \<bar>x\<bar>"
| "mathAbs _ = Infinity"

fun mathFloor :: "number \<Rightarrow> number" where
  "mathFloor (Finite x) = Finite (of_int \<lfloor>x\<rfloor>)"
| "mathFloor n = n"

fun mathCeil :: "number \<Rightarrow> number" where
  "mathCeil (Finite x) = Finite (of_int \<lceil>x\<rceil>)"
| "mathCeil n = n"

fun mathLog :: "number \<Rightarrow> number" where
  "mathLog (Finite x) = (if x < 0 then NaN else if x = 0 then NegInfinity else Finite (ln x))"
| "mathLog Infinity = Infinity"
| "mathLog _ = NaN"

text \<open>Whether a number is an odd integer, as \<open>Math.pow\<close> asks of an exponent.\<close>

definition odd_integer :: "real \<Rightarrow> bool" where
  "odd_integer y = (of_int \<lfloor>y\<rfloor> = y \<and> odd \<lfloor>y\<rfloor>)"

text \<open>\<open>Math.pow(b, e)\<close>, following the case list of the language standard.\<close>

fun mathPow :: "number \<Rightarrow> number \<Rightarrow> number" where
  "mathPow _ NaN = NaN"
| "mathPow NaN (Finite y) = (if y = 0 then Finite 1 else NaN)"
| "mathPow NaN _ = NaN"
| "mathPow Infinity (Finite y) =
     (if y = 0 then Finite 1 else if 0 < y then Infinity else Finite 0)"
| "mathPow Infinity Infinity = Infinity"
| "mathPow Infinity NegInfinity = Finite 0"
| "mathPow NegInfinity (Finite y) =
     (if y = 0 then Finite 1
      else if 0 < y then (if odd_integer y then NegInfinity else Infinity)
      else Finite 0)"
| "mathPow NegInfinity Infinity = Infinity"
| "mathPow NegInfinity NegInfinity = Finite 0"
| "mathPow (Finite x) Infinity =
     (if 1 < \<bar>x\<bar> then Infinity else if \<bar>x\<bar> = 1 then NaN else Finite 0)"
| "mathPow (Finite x) NegInfinity =
     (if 1 < \<bar>x\<bar> then Finite 0 else if \<bar>x\<bar> = 1 then NaN else Infinity)"
| "mathPow (Finite x) (Finite y) =
     (if y = 0 then Finite 1
      else if 0 < x then Finite (x powr y)
      else if x = 0 then (if 0 < y then Finite 0 else Infinity)
      else if of_int \<lfloor>y\<rfloor> = y then Finite (x powi \<lfloor>y\<rfloor>)
      else NaN)"

section \<open>Collaborators outside the sources\<close>

text \<open>
  \<open>Log.ts\<close> calls the generic scale, the interval scale, the number utilities, the
  scale helper and the data accessor. Their files are not among the sources, so each is
  either modelled from its description in the specification or taken as a parameter.
\<close>

type_synonym extent = "number \<times> number"

text \<open>
  Modelled from the spec: \<open>Scale.unionExtent\<close> (file \<open>Scale.ts\<close> is missing), the
  pair-widen primitive: "simply takes the elementwise min of the two minimums and max
  of the two maximums -- widening, never narrowing". A stored boundary is replaced
  when the other one is strictly beyond it.
\<close>

definition Scale_unionExtent :: "extent \<Rightarrow> extent \<Rightarrow> extent" where
  "Scale_unionExtent ext other =
     ((if num_lt (fst other) (fst ext) then fst other else fst ext),
      (if num_gt (snd other) (snd ext) then snd other else snd ext))"

text \<open>
  Modelled from the spec: \<open>IntervalScale.unionExtent\<close> (file \<open>Interval.ts\<close> is
  missing) as called on \<open>originalScale\<close>: it "unconditionally widens
  \<open>originalScale\<close>'s tracked linear extent to include this pair" and leaves the
  pair it is given as it is.
\<close>

definition IntervalScale_unionExtent :: "extent \<Rightarrow> extent \<Rightarrow> extent" where
  "IntervalScale_unionExtent ext other = Scale_unionExtent ext other"

text \<open>
  Modelled from the spec: \<open>scaleHelper.contain\<close>, \<open>scaleHelper.normalize\<close> and
  \<open>scaleHelper.scale\<close> (file \<open>helper.ts\<close> is missing): the "inclusive range
  test", the "linear interpolation of \<open>value\<close> into [0,1] over \<open>extent\<close>" and the
  "inverse linear interpolation".
\<close>

definition scaleHelper_contain :: "number \<Rightarrow> extent \<Rightarrow> bool" where
  "scaleHelper_contain val ext = (num_ge val (fst ext) \<and> num_le val (snd ext))"

definition scaleHelper_normalize :: "number \<Rightarrow> extent \<Rightarrow> number" where
  "scaleHelper_normalize val ext =
     num_div (num_sub val (fst ext)) (num_sub (snd ext) (fst ext))"

definition scaleHelper_scale :: "number \<Rightarrow> extent \<Rightarrow> number" where
  "scaleHelper_scale val ext =
     num_add (num_mul val (num_sub (snd ext) (fst ext))) (fst ext)"

text \<open>
  Modelled from the spec: \<open>numberUtil.round(value, precision)\<close> (file \<open>number.ts\<close>
  is missing), which "rounds a number ... to a given decimal-place count"; a value
  half-way between two candidates goes away from zero. The call without a precision
  is a parameter of the functions that make it.
\<close>

fun numberUtil_round :: "number \<Rightarrow> nat \<Rightarrow> number" where
  "numberUtil_round (Finite x) p =
     Finite (sgn x * of_int \<lfloor>\<bar>x\<bar> * 10 ^ p + 1 / 2\<rfloor> / 10 ^ p)"
| "numberUtil_round n p = n"

text \<open>
  Modelled from the spec: \<open>numberUtil.getPrecision(value)\<close> (file \<open>number.ts\<close> is
  missing), which "returns the number of significant decimal places in a literal
  value": the least \<open>i\<close> with \<open>x * 10 ^ i\<close> an integer, looked for among the first
  twenty, and 0 for a value that is not finite.
\<close>

fun decimal_places :: "nat \<Rightarrow> nat \<Rightarrow> real \<Rightarrow> nat" where
  "decimal_places 0 i x = i"
| "decimal_places (Suc k) i x =
     (if of_int \<lfloor>x * 10 ^ i\<rfloor> = x * 10 ^ i then i else decimal_places k (Suc i) x)"

fun numberUtil_getPrecision :: "number \<Rightarrow> nat" where
  "numberUtil_getPrecision (Finite x) = decimal_places 20 0 x"
| "numberUtil_getPrecision _ = 0"

text \<open>
  Modelled from the spec: \<open>numberUtil.quantity(span)\<close> (file \<open>number.ts\<close> is
  missing), which "returns a nice order-of-magnitude step (leading digit 1/2/5 x power
  of ten) for a numeric span": the largest power of ten that is not above a positive
  span. \<open>calcNiceTicks\<close> takes the step function as a parameter; this one is the
  instance used on concrete inputs.
\<close>

fun numberUtil_quantity :: "number \<Rightarrow> number" where
  "numberUtil_quantity (Finite x) =
     (if 0 < x then Finite (10 powr of_int \<lfloor>log 10 x\<rfloor>) else NaN)"
| "numberUtil_quantity Infinity = Infinity"
| "numberUtil_quantity _ = NaN"

text \<open>
  The data accessor: \<open>getApproximateExtent(dim)\<close> gives the pair it reports for a
  dimension.
\<close>

type_synonym DimensionName = string

type_synonym SeriesData = "DimensionName \<Rightarrow> extent"

definition getApproximateExtent :: "SeriesData \<Rightarrow> DimensionName \<Rightarrow> extent" where
  "getApproximateExtent data dimName = data dimName"

section \<open>The logarithmic scale\<close>

text \<open>
  The fields of a \<open>LogScale\<close>. \<open>extent\<close> is the inherited \<open>_extent\<close>, in log space;
  \<open>originalScale\<close> is the extent of the private interval scale, the only part of it
  that \<open>LogScale\<close> reads or writes; \<open>niceExtent\<close> is undefined until it is computed.
\<close>

record LogScale =
  base :: number
  extent :: extent
  originalScale :: extent
  fixMin :: bool
  fixMax :: bool
  interval :: number
  niceExtent :: "extent option"

datatype ScaleTick = ScaleTick (tick_value: number)

text \<open>
  Modelled from the spec: the constructor of \<open>Scale\<close> and of \<open>IntervalScale\<close> (files
  \<open>Scale.ts\<close> and \<open>Interval.ts\<close> are missing): "a LogScale is constructed with default
  base 10 and an empty/default extent"; the empty extent is the one every widening
  replaces.
\<close>

definition new_LogScale :: LogScale where
  "new_LogScale =
     \<lparr>base = Finite 10, extent = (Infinity, NegInfinity),
      originalScale = (Infinity, NegInfinity), fixMin = False, fixMax = False,
      interval = Finite 0, niceExtent = None\<rparr>"

text \<open>
  Modelled from the spec: \<open>Scale.getExtent\<close>, the pair-read primitive, gives a copy of
  the stored pair; \<open>IntervalScale.setExtent\<close> "simply stores the pair as given,
  performing no additional reordering or validation".
\<close>

definition Scale_getExtent :: "LogScale \<Rightarrow> extent" where
  "Scale_getExtent s = extent s"

definition IntervalScale_setExtent :: "LogScale \<Rightarrow> number \<Rightarrow> number \<Rightarrow> LogScale" where
  "IntervalScale_setExtent s start endv = s\<lparr>extent := (start, endv)\<rparr>"

definition fixRoundingError :: "number \<Rightarrow> number \<Rightarrow> number" where
  "fixRoundingError val originalVal =
     numberUtil_round val (numberUtil_getPrecision originalVal)"

text \<open>
  \<open>getTicks\<close>. The call \<open>numberUtil.round(x)\<close> without a precision and the ticks
  that \<open>IntervalScale.getTicks\<close> computes on this scale are parameters. \<open>finalTick\<close>
  is the function mapped over those ticks.
\<close>

definition finalTick :: "(number \<Rightarrow> number) \<Rightarrow> LogScale \<Rightarrow> ScaleTick \<Rightarrow> ScaleTick" where
  "finalTick round1 s tick =
     (let ext = extent s;
          originalExtent = originalScale s;
          val = tick_value tick;
          powVal = round1 (mathPow (base s) val);
          powVal1 = (if num_eq val (fst ext) \<and> fixMin s
                     then fixRoundingError powVal (fst originalExtent) else powVal);
          powVal2 = (if num_eq val (snd ext) \<and> fixMax s
                     then fixRoundingError powVal1 (snd originalExtent) else powVal1)
      in ScaleTick powVal2)"

definition getTicks ::
  "(number \<Rightarrow> number) \<Rightarrow> (LogScale \<Rightarrow> bool \<Rightarrow> ScaleTick list) \<Rightarrow> LogScale \<Rightarrow> bool \<Rightarrow> ScaleTick list"
where
  "getTicks round1 intervalGetTicks s expandToNicedExtent =
     (let ext = extent s;
          ticks = intervalGetTicks s expandToNicedExtent;
          hasZero = num_le (fst ext) (Finite 0);
          finalTicks = map (finalTick round1 s) ticks
      in if hasZero then ScaleTick (Finite 0) # finalTicks else finalTicks)"

definition setExtent :: "LogScale \<Rightarrow> number \<Rightarrow> number \<Rightarrow> LogScale" where
  "setExtent s start endv =
     (let b = mathLog (base s);
          start1 = (if num_le start (Finite 0) then Finite 0 else num_div (mathLog start) b);
          end1 = (if num_le endv (Finite 0) then Finite 0 else num_div (mathLog endv) b)
      in IntervalScale_setExtent s start1 end1)"

definition getExtent :: "LogScale \<Rightarrow> extent" where
  "getExtent s =
     (let b = base s;
          ext = Scale_getExtent s;
          e0 = mathPow b (fst ext);
          e1 = mathPow b (snd ext);
          originalExtent = originalScale s;
          r0 = (if fixMin s then fixRoundingError e0 (fst originalExtent) else e0);
          r1 = (if fixMax s then fixRoundingError e1 (snd originalExtent) else e1)
      in (r0, r1))"

text \<open>
  \<open>unionExtent\<close> writes into the pair it is given. The result is the new scale and the
  contents of the caller's pair after the call.
\<close>

definition unionExtent :: "LogScale \<Rightarrow> extent \<Rightarrow> LogScale \<times> extent" where
  "unionExtent s ext =
     (let s1 = s\<lparr>originalScale := IntervalScale_unionExtent (originalScale s) ext\<rparr>;
          b = base s1;
          x0 = (if num_le (fst ext) (Finite 0) then Finite 0
                else num_div (mathLog (fst ext)) (mathLog b));
          x1 = (if num_le (snd ext) (Finite 0) then Finite 0
                else num_div (mathLog (snd ext)) (mathLog b))
      in (s1\<lparr>extent := Scale_unionExtent (extent s1) (x0, x1)\<rparr>, (x0, x1)))"

definition unionExtentFromData ::
  "LogScale \<Rightarrow> SeriesData \<Rightarrow> DimensionName \<Rightarrow> LogScale \<times> extent"
where
  "unionExtentFromData s data dimName =
     (let ext = getApproximateExtent data dimName;
          x0 = (if num_le (fst ext) (Finite 0) then Finite 0 else fst ext);
          x1 = (if num_le (snd ext) (Finite 0) then Finite 0 else snd ext)
      in unionExtent s (x0, x1))"

text \<open>\<open>approxTickNum || 10\<close>: a number is falsy when it is \<open>NaN\<close> or zero.\<close>

definition or_default :: "number \<Rightarrow> number \<Rightarrow> number" where
  "or_default n d = (if isNaN n \<or> n = Finite 0 then d else n)"

text \<open>The guard of the loop of \<open>calcNiceTicks\<close>, and the loop.\<close>

definition loop_guard :: "number \<Rightarrow> bool" where
  "loop_guard i =
     (\<not> isNaN i \<and> num_lt (mathAbs i) (Finite 1) \<and> num_gt (mathAbs i) (Finite 0))"

function grow_interval :: "number \<Rightarrow> number" where
  "grow_interval i = (if loop_guard i then grow_interval (num_mul i (Finite 10)) else i)"
  by pat_completeness auto

termination grow_interval
proof (relation "measure (\<lambda>i. case i of Finite x \<Rightarrow> nat \<lceil>- log 10 \<bar>x\<bar>\<rceil> | _ \<Rightarrow> 0)")
  show "wf (measure (\<lambda>i. case i of Finite x \<Rightarrow> nat \<lceil>- log 10 \<bar>x\<bar>\<rceil> | _ \<Rightarrow> 0))"
    by simp
next
  fix i
  assume "loop_guard i"
  then obtain x where i: "i = Finite x" and pos: "0 < \<bar>x\<bar>" and small: "\<bar>x\<bar> < 1"
    by (cases i) (auto simp: loop_guard_def num_gt_def)
  have shift: "log 10 \<bar>x * 10\<bar> = log 10 \<bar>x\<bar> + 1"
    using pos by (simp add: abs_mult log_mult)
  have "log 10 \<bar>x\<bar> < 0"
    using pos small by simp
  then have "0 < \<lceil>- log 10 \<bar>x\<bar>\<rceil>"
    by (simp add: less_ceiling_iff)
  moreover have "\<lceil>- log 10 \<bar>x * 10\<bar>\<rceil> = \<lceil>- log 10 \<bar>x\<bar>\<rceil> - 1"
  proof -
    have "- log 10 \<bar>x * 10\<bar> = (- log 10 \<bar>x\<bar>) - 1"
      unfolding shift by simp
    then show ?thesis
      by (simp only: ceiling_diff_one)
  qed
  ultimately have "nat \<lceil>- log 10 \<bar>x * 10\<bar>\<rceil> < nat \<lceil>- log 10 \<bar>x\<bar>\<rceil>"
    by linarith
  then show "(num_mul i (Finite 10), i)
      \<in> measure (\<lambda>i. case i of Finite x \<Rightarrow> nat \<lceil>- log 10 \<bar>x\<bar>\<rceil> | _ \<Rightarrow> 0)"
    by (simp add: i)
qed

declare grow_interval.simps [simp del]

text \<open>
  The value of \<open>interval\<close> when the loop is reached: the step of the span, times ten
  when \<open>err <= 0.5\<close>. The step function \<open>numberUtil.quantity\<close> is a parameter.
\<close>

definition seed_interval :: "(number \<Rightarrow> number) \<Rightarrow> number \<Rightarrow> number \<Rightarrow> number" where
  "seed_interval quantity span0 approxTickNum =
     (let interval0 = quantity span0;
          err = num_mul (num_div approxTickNum span0) interval0
      in if num_le err (Finite (1 / 2)) then num_mul interval0 (Finite 10) else interval0)"

text \<open>
  \<open>calcNiceTicks\<close>; \<open>numberUtil.quantity\<close> and the call \<open>numberUtil.round(x)\<close>
  without a precision are parameters.
\<close>

definition calcNiceTicks ::
  "(number \<Rightarrow> number) \<Rightarrow> (number \<Rightarrow> number) \<Rightarrow> LogScale \<Rightarrow> number \<Rightarrow> LogScale"
where
  "calcNiceTicks quantity round1 s approxTickNum0 =
     (let approxTickNum = or_default approxTickNum0 (Finite 10);
          ext = extent s;
          span0 = num_sub (snd ext) (fst ext)
      in if num_eq span0 Infinity \<or> num_le span0 (Finite 0) then s
         else
           let interval1 = grow_interval (seed_interval quantity span0 approxTickNum);
               nice =
                 (round1 (num_mul (mathCeil (num_div (fst ext) interval1)) interval1),
                  round1 (num_mul (mathFloor (num_div (snd ext) interval1)) interval1))
           in s\<lparr>interval := interval1, niceExtent := Some nice\<rparr>)"

text \<open>
  \<open>calcNiceExtent\<close>: the options it reads, with an absent flag as \<open>None\<close>, and the
  nice-extent algorithm of the interval scale as a parameter.
\<close>

record NiceOptions =
  splitNumber :: number
  opt_fixMin :: "bool option"
  opt_fixMax :: "bool option"
  minInterval :: "number option"
  maxInterval :: "number option"

definition truthy :: "bool option \<Rightarrow> bool" where
  "truthy b = (case b of None \<Rightarrow> False | Some v \<Rightarrow> v)"

definition calcNiceExtent ::
  "(LogScale \<Rightarrow> NiceOptions \<Rightarrow> LogScale) \<Rightarrow> LogScale \<Rightarrow> NiceOptions \<Rightarrow> LogScale"
where
  "calcNiceExtent intervalCalcNiceExtent s opt =
     (intervalCalcNiceExtent s opt)
       \<lparr>fixMin := truthy (opt_fixMin opt), fixMax := truthy (opt_fixMax opt)\<rparr>"

definition parse :: "number \<Rightarrow> number" where
  "parse val = val"

definition contain :: "LogScale \<Rightarrow> number \<Rightarrow> bool" where
  "contain s val =
     (if num_le val (Finite 0) then False
      else scaleHelper_contain (num_div (mathLog val) (mathLog (base s))) (extent s))"

definition normalize_val :: "LogScale \<Rightarrow> number \<Rightarrow> number" where
  "normalize_val s val =
     (let val1 = (if num_le val (Finite 0) then Finite (1 / 100) else val);
          val2 = num_div (mathLog val1) (mathLog (base s))
      in scaleHelper_normalize val2 (extent s))"

definition scale :: "LogScale \<Rightarrow> number \<Rightarrow> number" where
  "scale s val =
     (let val1 = (if num_le val (Finite 0) then Finite (1 / 100) else val);
          val2 = scaleHelper_scale val1 (extent s)
      in mathPow (base s) val2)"

text \<open>The span of the stored extent, as \<open>calcNiceTicks\<close> computes it.\<close>

definition log_span :: "LogScale \<Rightarrow> number" where
  "log_span s = num_sub (snd (extent s)) (fst (extent s))"

text \<open>The log-space position of a value, as \<open>contain\<close> computes it.\<close>

definition log_position :: "LogScale \<Rightarrow> number \<Rightarrow> number" where
  "log_position s x = num_div (mathLog x) (mathLog (base s))"

text \<open>
  Ticks of an interval scale, for the examples: the log-space positions 0, 1 and 2.
\<close>

definition ticks012 :: "LogScale \<Rightarrow> bool \<Rightarrow> ScaleTick list" where
  "ticks012 s expand = [ScaleTick (Finite 0), ScaleTick (Finite 1), ScaleTick (Finite 2)]"

text \<open>
  A scale with both ends fixed: the new scale after \<open>unionExtent([1, 100])\<close> and
  \<open>calcNiceExtent\<close> with \<open>fixMin\<close> and \<open>fixMax\<close> set, the nice-extent algorithm of
  the interval scale leaving the scale as it is.
\<close>

definition fixBoth :: NiceOptions where
  "fixBoth = \<lparr>splitNumber = Finite 5, opt_fixMin = Some True, opt_fixMax = Some True,
      minInterval = None, maxInterval = None\<rparr>"

definition fixed_1_100 :: LogScale where
  "fixed_1_100 =
     calcNiceExtent (\<lambda>s opt. s) (fst (unionExtent new_LogScale (Finite 1, Finite 100)))
       fixBoth"

text \<open>The new scale after \<open>unionExtent([0.5, 200])\<close>.\<close>

definition half_200 :: LogScale where
  "half_200 = fst (unionExtent new_LogScale (Finite (1 / 2), Finite 200))"

text \<open>
  The value that \<open>getExtent\<close> computes back for a boundary that \<open>setExtent\<close> stored:
  \<open>base ^ (log x / log base)\<close>.
\<close>

definition recovered :: "LogScale \<Rightarrow> number \<Rightarrow> number" where
  "recovered s x = mathPow (base s) (log_position s x)"

section \<open>Properties\<close>

subsection \<open>Facts about the numbers\<close>

lemma ln_100: "ln (100::real) = 2 * ln 10"
proof -
  have "ln ((10::real) ^ 2) = real 2 * ln 10"
    by (rule ln_realpow)
  then show ?thesis
    by simp
qed

lemma mathPow_zero: "mathPow b (Finite 0) = Finite 1"
  by (cases b) simp_all

lemma not_le_zero: "0 < v \<Longrightarrow> \<not> num_le (Finite v) (Finite 0)"
  by (simp add: num_le_def num_eq_def)

lemma ln_10_gt_2: "2 < ln (10::real)"
proof -
  have "exp (1::real) \<le> 3"
    by (rule exp_le)
  then have "exp (1::real) * exp 1 \<le> 3 * 3"
    by (intro mult_mono) auto
  then have "exp (2::real) \<le> 9"
    by (simp add: exp_add [symmetric] del: exp_add)
  then have "exp (2::real) < exp (ln 10)"
    by simp
  then show ?thesis
    by (simp only: exp_less_cancel_iff)
qed

lemma powr_lower: "(104 / 100 :: real) < 10 powr (1 / 50)"
proof -
  have "1 + 1 / 50 * 2 < 1 + 1 / 50 * ln (10::real)"
    using ln_10_gt_2 by simp
  also have "\<dots> \<le> exp (1 / 50 * ln 10)"
    by (rule exp_ge_add_one_self)
  also have "\<dots> = 10 powr (1 / 50)"
    by (simp add: powr_def mult.commute)
  finally show ?thesis
    by simp
qed

subsection \<open>Scales used in the examples\<close>

lemma union_1_100:
  "extent (fst (unionExtent new_LogScale (Finite 1, Finite 100))) = (Finite 0, Finite 2)"
  by (simp add: unionExtent_def new_LogScale_def Scale_unionExtent_def
      IntervalScale_unionExtent_def num_le_def num_eq_def num_gt_def Let_def ln_100)

lemma set_1_100:
  "setExtent new_LogScale (Finite 1) (Finite 100)
     = new_LogScale\<lparr>extent := (Finite 0, Finite 2)\<rparr>"
  by (simp add: setExtent_def new_LogScale_def IntervalScale_setExtent_def num_le_def
      num_eq_def Let_def ln_100)

subsection \<open>Degenerate spans\<close>

text \<open>
  Claim C4. When the span of the stored extent is infinite or not above zero,
  \<open>calcNiceTicks\<close> returns the scale it was given, whatever the requested tick number,
  the step function and the rounding function: \<open>interval\<close> and \<open>niceExtent\<close> keep the
  values they had.
\<close>

theorem calcNiceTicks_degenerate_span_noop:
  assumes "log_span s = Infinity \<or> log_span s = NegInfinity \<or> num_le (log_span s) (Finite 0)"
  shows "calcNiceTicks quantity round1 s n = s
         \<and> interval (calcNiceTicks quantity round1 s n) = interval s
         \<and> niceExtent (calcNiceTicks quantity round1 s n) = niceExtent s"
proof -
  have "num_eq (log_span s) Infinity \<or> num_le (log_span s) (Finite 0)"
    using assms by (auto simp: num_eq_def num_le_def)
  then have "calcNiceTicks quantity round1 s n = s"
    by (simp add: calcNiceTicks_def log_span_def Let_def)
  then show ?thesis
    by simp
qed

text \<open>
  The theorem at three scales: the new one (span \<open>-Infinity\<close>), one whose extent
  reaches \<open>Infinity\<close>, and one whose extent is a single point.
\<close>

theorem calcNiceTicks_degenerate_span_noop_witness:
  "calcNiceTicks numberUtil_quantity (\<lambda>x. x) new_LogScale (Finite 10) = new_LogScale
   \<and> calcNiceTicks numberUtil_quantity (\<lambda>x. x)
        (new_LogScale\<lparr>extent := (Finite 0, Infinity)\<rparr>) (Finite 10)
      = new_LogScale\<lparr>extent := (Finite 0, Infinity)\<rparr>
   \<and> calcNiceTicks numberUtil_quantity (\<lambda>x. x)
        (new_LogScale\<lparr>extent := (Finite 2, Finite 2)\<rparr>) (Finite 10)
      = new_LogScale\<lparr>extent := (Finite 2, Finite 2)\<rparr>"
  using
    calcNiceTicks_degenerate_span_noop
      [of new_LogScale numberUtil_quantity "\<lambda>x. x" "Finite 10"]
    calcNiceTicks_degenerate_span_noop
      [of "new_LogScale\<lparr>extent := (Finite 0, Infinity)\<rparr>" numberUtil_quantity
          "\<lambda>x. x" "Finite 10"]
    calcNiceTicks_degenerate_span_noop
      [of "new_LogScale\<lparr>extent := (Finite 2, Finite 2)\<rparr>" numberUtil_quantity
          "\<lambda>x. x" "Finite 10"]
  by (simp add: log_span_def new_LogScale_def num_sub_def num_le_def num_eq_def)

subsection \<open>Union from a data accessor\<close>

text \<open>
  Claim C5. When the data accessor reports the range \<open>[-10, 50]\<close> for the dimension,
  \<open>unionExtentFromData\<close> gives, from any scale, what \<open>unionExtent([0, 50])\<close> gives
  from it: the same scale (log-space extent and extent of \<open>originalScale\<close>) and the
  same contents of the pair handed over.
\<close>

theorem unionExtentFromData_clamps_before_delegation:
  assumes "getApproximateExtent data dimName = (Finite (- 10), Finite 50)"
  shows "unionExtentFromData s data dimName = unionExtent s (Finite 0, Finite 50)"
  using assms by (simp add: unionExtentFromData_def num_le_def num_eq_def)

theorem unionExtentFromData_clamps_before_delegation_witness:
  "unionExtentFromData new_LogScale (\<lambda>d. (Finite (- 10), Finite 50)) ''y''
     = unionExtent new_LogScale (Finite 0, Finite 50)"
  using unionExtentFromData_clamps_before_delegation
    [of "\<lambda>d. (Finite (- 10), Finite 50)" "''y''" new_LogScale]
  by (simp add: getApproximateExtent_def)

subsection \<open>A non-positive boundary, read back\<close>

text \<open>
  Claim C1, as the code has it. After \<open>unionExtent\<close> of a pair whose minimum is not
  above zero, on a scale that does not fix its minimum and whose stored minimum is
  not below 0 (the new scale has \<open>Infinity\<close> there), \<open>getExtent\<close> reports the minimum
  1: the boundary is stored as the log-space value 0, and \<open>base ^ 0\<close> is what comes
  back. For \<open>[-5, 100]\<close> on the new scale the pair reported is \<open>(1, 100)\<close>.
\<close>

theorem unionExtent_nonpositive_min_reported_as_one:
  assumes "num_le a (Finite 0)" and "\<not> fixMin s" and "num_le (Finite 0) (fst (extent s))"
  shows "fst (getExtent (fst (unionExtent s (a, c)))) = Finite 1"
proof -
  have "fst (extent (fst (unionExtent s (a, c)))) = Finite 0"
    using assms(1,3)
    by (cases "fst (extent s)")
      (auto simp: unionExtent_def Scale_unionExtent_def Let_def num_le_def num_eq_def)
  moreover have "fixMin (fst (unionExtent s (a, c))) = fixMin s"
    by (simp add: unionExtent_def Let_def)
  ultimately show ?thesis
    using assms(2) by (simp add: getExtent_def Scale_getExtent_def Let_def mathPow_zero)
qed

theorem unionExtent_nonpositive_min_reported_as_one_witness:
  "getExtent (fst (unionExtent new_LogScale (Finite (- 5), Finite 100)))
     = (Finite 1, Finite 100)"
proof -
  have "fst (getExtent (fst (unionExtent new_LogScale (Finite (- 5), Finite 100))))
      = Finite 1"
    using unionExtent_nonpositive_min_reported_as_one
      [of "Finite (- 5)" new_LogScale "Finite 100"]
    by (simp add: new_LogScale_def num_le_def num_eq_def)
  moreover have
    "snd (getExtent (fst (unionExtent new_LogScale (Finite (- 5), Finite 100))))
      = Finite 100"
    by (simp add: getExtent_def unionExtent_def new_LogScale_def Scale_getExtent_def
        Scale_unionExtent_def IntervalScale_unionExtent_def num_le_def num_eq_def
        num_gt_def Let_def ln_100)
  ultimately show ?thesis
    by (simp add: prod_eq_iff)
qed

text \<open>The minimum reported for \<open>[-5, 100]\<close> on the new scale is 1, not 0.\<close>

theorem unionExtent_negative_min_not_reported_as_zero:
  "fst (getExtent (fst (unionExtent new_LogScale (Finite (- 5), Finite 100)))) = Finite 1
   \<and> fst (getExtent (fst (unionExtent new_LogScale (Finite (- 5), Finite 100))))
       \<noteq> Finite 0"
  by (simp add: getExtent_def unionExtent_def new_LogScale_def Scale_getExtent_def
      Scale_unionExtent_def IntervalScale_unionExtent_def num_le_def num_eq_def
      num_gt_def Let_def)

subsection \<open>The zero tick\<close>

text \<open>
  The test of \<open>getTicks\<close> reads the stored minimum of the extent, a log-space value:
  the tick 0 is put in front of the mapped ticks when that value is not above zero.
\<close>

lemma getTicks_tests_log_min:
  "getTicks round1 intervalGetTicks s expand
     = (if num_le (fst (extent s)) (Finite 0)
        then ScaleTick (Finite 0) # map (finalTick round1 s) (intervalGetTicks s expand)
        else map (finalTick round1 s) (intervalGetTicks s expand))"
  by (simp add: getTicks_def Let_def)

lemma half_200_fields:
  "extent half_200 = (Finite (log 10 (1 / 2)), Finite (log 10 200))"
  "base half_200 = Finite 10" "\<not> fixMin half_200" "\<not> fixMax half_200"
  by (simp_all add: half_200_def unionExtent_def new_LogScale_def Scale_unionExtent_def
      IntervalScale_unionExtent_def num_le_def num_eq_def num_gt_def Let_def log_def)

text \<open>
  Claim C2 says that the tick 0 is put in front exactly when the linear minimum of the
  extent is not above zero, and that none is put in when that minimum is positive. The
  code departs from it: after \<open>unionExtent([1, 100])\<close> and after
  \<open>unionExtent([0.5, 200])\<close> on the new scale, the linear minimum that \<open>getExtent\<close>
  reports is above zero, the interval does not include 0, and the ticks start with the
  tick 0 all the same, because the stored log-space minimum is not above zero.
\<close>

theorem getTicks_zero_tick_with_positive_linear_min:
  "num_gt (fst (getExtent (fst (unionExtent new_LogScale (Finite 1, Finite 100)))))
      (Finite 0)
   \<and> getTicks (\<lambda>x. x) ticks012 (fst (unionExtent new_LogScale (Finite 1, Finite 100))) False
       = [ScaleTick (Finite 0), ScaleTick (Finite 1), ScaleTick (Finite 10),
          ScaleTick (Finite 100)]
   \<and> num_gt (fst (getExtent (fst (unionExtent new_LogScale (Finite (1 / 2), Finite 200)))))
      (Finite 0)
   \<and> getTicks (\<lambda>x. x) ticks012
         (fst (unionExtent new_LogScale (Finite (1 / 2), Finite 200))) False
       = [ScaleTick (Finite 0), ScaleTick (Finite 1), ScaleTick (Finite 10),
          ScaleTick (Finite 100)]"
proof -
  let ?s = "fst (unionExtent new_LogScale (Finite 1, Finite 100))"
  have flags: "\<not> fixMin ?s" "\<not> fixMax ?s" "base ?s = Finite 10"
    by (simp_all add: unionExtent_def new_LogScale_def Let_def)
  have one: "num_gt (fst (getExtent ?s)) (Finite 0)
    \<and> getTicks (\<lambda>x. x) ticks012 ?s False
       = [ScaleTick (Finite 0), ScaleTick (Finite 1), ScaleTick (Finite 10), ScaleTick (Finite 100)]"
    by (simp add: getExtent_def getTicks_def finalTick_def ticks012_def Scale_getExtent_def
        union_1_100 flags num_gt_def num_le_def num_eq_def Let_def)
  have neg: "log 10 (1 / 2 :: real) < 0"
    by simp
  have nz: "log 10 (1 / 2 :: real) \<noteq> 0"
    using neg by linarith
  have "fst (getExtent half_200) = Finite (1 / 2)"
    using nz by (simp add: getExtent_def Scale_getExtent_def half_200_fields Let_def)
  then have pos: "num_gt (fst (getExtent half_200)) (Finite 0)"
    by (simp add: num_gt_def)
  have "num_le (fst (extent half_200)) (Finite 0)"
    using neg by (simp add: half_200_fields num_le_def)
  then have "getTicks (\<lambda>x. x) ticks012 half_200 False
      = ScaleTick (Finite 0) # map (finalTick (\<lambda>x. x) half_200) (ticks012 half_200 False)"
    by (simp add: getTicks_def Let_def)
  moreover have "map (finalTick (\<lambda>x. x) half_200) (ticks012 half_200 False)
      = [ScaleTick (Finite 1), ScaleTick (Finite 10), ScaleTick (Finite 100)]"
    by (simp add: finalTick_def ticks012_def half_200_fields Let_def)
  ultimately show ?thesis
    using one pos by (simp add: half_200_def)
qed

text \<open>
  With a base above 1, a finite stored minimum and the minimum not fixed, the test
  of \<open>getTicks\<close> holds exactly when the minimum that \<open>getExtent\<close> reports is at most
  1.
\<close>

lemma zero_tick_iff_reported_min_le_one:
  assumes "base s = Finite b" and "1 < b" and "\<not> fixMin s" and "fst (extent s) = Finite e0"
  shows "num_le (fst (extent s)) (Finite 0) \<longleftrightarrow> num_le (fst (getExtent s)) (Finite 1)"
proof -
  have "b powr e0 \<le> b powr 0 \<longleftrightarrow> e0 \<le> 0"
    using assms(2) by (rule powr_le_cancel_iff)
  then have "b powr e0 \<le> 1 \<longleftrightarrow> e0 \<le> 0"
    using assms(2) by simp
  moreover have "fst (getExtent s) = Finite (b powr e0)"
    using assms by (simp add: getExtent_def Scale_getExtent_def Let_def)
  ultimately show ?thesis
    using assms(4) by (auto simp: num_le_def num_eq_def)
qed

subsection \<open>Round trip\<close>

lemma normalize_finite:
  assumes "base s = Finite b" "0 < b" "b \<noteq> 1" "0 < v"
    and "extent s = (Finite e0, Finite e1)" "e0 \<noteq> e1"
  shows "normalize_val s (Finite v) = Finite ((log b v - e0) / (e1 - e0))"
  using assms
  by (simp add: normalize_val_def scaleHelper_normalize_def not_le_zero log_def num_sub_def
      Let_def)

lemma scale_finite:
  assumes "base s = Finite b" "0 < b" "0 < p" "extent s = (Finite e0, Finite e1)"
  shows "scale s (Finite p) = Finite (b powr (p * (e1 - e0) + e0))"
  using assms
  by (simp add: scale_def scaleHelper_scale_def not_le_zero num_sub_def Let_def)

text \<open>
  Claim C3, as the code has it. With a base above 1 and a finite extent, a positive
  value whose log-space position lies above the minimum of the extent and not above
  its maximum is recovered by \<open>scale\<close> after \<open>normalize\<close>. Finite numbers are exact
  here, so the round trip is an equality.
\<close>

theorem round_trip_above_minimum:
  assumes "base s = Finite b" and "1 < b" and "0 < v"
    and "extent s = (Finite e0, Finite e1)"
    and "e0 < log b v" and "log b v \<le> e1"
  shows "scale s (normalize_val s (Finite v)) = Finite v"
proof -
  have ne: "e0 \<noteq> e1" and lt: "e0 < e1"
    using assms(5,6) by auto
  let ?p = "(log b v - e0) / (e1 - e0)"
  have n: "normalize_val s (Finite v) = Finite ?p"
    using assms ne by (intro normalize_finite) auto
  have pos: "0 < ?p"
    using assms(5) lt by simp
  have "scale s (Finite ?p) = Finite (b powr (?p * (e1 - e0) + e0))"
    using assms pos by (intro scale_finite) auto
  also have "?p * (e1 - e0) + e0 = log b v"
    using ne by simp
  also have "b powr log b v = v"
    using assms by simp
  finally show ?thesis
    by (simp add: n)
qed

theorem round_trip_above_minimum_witness:
  "scale (setExtent new_LogScale (Finite 1) (Finite 100))
      (normalize_val (setExtent new_LogScale (Finite 1) (Finite 100)) (Finite 10))
     = Finite 10"
proof -
  have "base (new_LogScale\<lparr>extent := (Finite 0, Finite 2)\<rparr>) = Finite 10"
    by (simp add: new_LogScale_def)
  then show ?thesis
    using round_trip_above_minimum
      [of "setExtent new_LogScale (Finite 1) (Finite 100)" 10 10 0 2]
    by (simp add: set_1_100)
qed

text \<open>
  At the minimum of the extent the round trip fails: after \<open>setExtent(1, 100)\<close>,
  \<open>normalize(1)\<close> is 0, \<open>scale\<close> replaces the position 0 by 0.01, and the value that
  comes back is \<open>10 ^ 0.02\<close>, more than four percent above 1.
\<close>

theorem round_trip_fails_at_minimum:
  "scale (setExtent new_LogScale (Finite 1) (Finite 100))
      (normalize_val (setExtent new_LogScale (Finite 1) (Finite 100)) (Finite 1))
     = Finite (10 powr (1 / 50))
   \<and> (104 / 100 :: real) < 10 powr (1 / 50)"
proof -
  have "normalize_val (new_LogScale\<lparr>extent := (Finite 0, Finite 2)\<rparr>) (Finite 1) = Finite 0"
    by (simp add: normalize_val_def new_LogScale_def scaleHelper_normalize_def num_le_def
        num_eq_def num_sub_def Let_def)
  moreover have "scale (new_LogScale\<lparr>extent := (Finite 0, Finite 2)\<rparr>) (Finite 0)
      = Finite (10 powr (1 / 50))"
    by (simp add: scale_def new_LogScale_def scaleHelper_scale_def num_le_def num_eq_def
        num_sub_def Let_def)
  ultimately have
    "scale (setExtent new_LogScale (Finite 1) (Finite 100))
        (normalize_val (setExtent new_LogScale (Finite 1) (Finite 100)) (Finite 1))
      = Finite (10 powr (1 / 50))"
    by (simp add: set_1_100)
  then show ?thesis
    using powr_lower by blast
qed

subsection \<open>Containment\<close>

lemma num_lt_le: "num_lt a b \<Longrightarrow> num_le a b"
  by (simp add: num_le_def)

lemma inside_positive:
  assumes "num_lt lo (num_div (mathLog x) lb)" and "num_lt (num_div (mathLog x) lb) hi"
  shows "\<not> num_le x (Finite 0)"
proof
  assume le: "num_le x (Finite 0)"
  then have "mathLog x = NaN \<or> mathLog x = NegInfinity"
    by (cases x) (auto simp: num_le_def num_eq_def)
  then have "num_div (mathLog x) lb \<in> {NaN, NegInfinity, Infinity}"
    by (cases lb) (auto split: if_splits)
  then show False
    using assms by (cases lo; cases hi) auto
qed

text \<open>
  Claim C6. On every scale, \<open>contain\<close> is false for every value that is not above
  zero, and true for every value whose log-space position lies strictly inside the
  stored extent.
\<close>

theorem contain_nonpositive_and_inside:
  "(num_le v (Finite 0) \<longrightarrow> \<not> contain s v)
   \<and> (num_lt (fst (extent s)) (log_position s x) \<and> num_lt (log_position s x) (snd (extent s))
        \<longrightarrow> contain s x)"
proof (intro conjI impI)
  assume "num_le v (Finite 0)"
  then show "\<not> contain s v" by (simp add: contain_def)
next
  assume inside: "num_lt (fst (extent s)) (log_position s x) \<and> num_lt (log_position s x) (snd (extent s))"
  then have "\<not> num_le x (Finite 0)"
    unfolding log_position_def using inside_positive by blast
  then show "contain s x"
    using inside
    by (simp add: contain_def scaleHelper_contain_def num_ge_def num_lt_le log_position_def)
qed

theorem contain_nonpositive_and_inside_witness:
  "\<not> contain (setExtent new_LogScale (Finite 1) (Finite 100)) (Finite 0)
   \<and> \<not> contain (setExtent new_LogScale (Finite 1) (Finite 100)) (Finite (- 3))
   \<and> contain (setExtent new_LogScale (Finite 1) (Finite 100)) (Finite 10)"
proof -
  have b: "base (new_LogScale\<lparr>extent := (Finite 0, Finite 2)\<rparr>) = Finite 10"
    by (simp add: new_LogScale_def)
  show ?thesis
  using contain_nonpositive_and_inside [of "Finite 0" "setExtent new_LogScale (Finite 1) (Finite 100)" "Finite 10"]
    contain_nonpositive_and_inside [of "Finite (- 3)" "setExtent new_LogScale (Finite 1) (Finite 100)" "Finite 10"]
  by (simp add: set_1_100 log_position_def b num_le_def num_eq_def)
qed

subsection \<open>Monotonicity\<close>

lemma normalize_unbounded:
  assumes "base s = Finite b" "0 < b" "b \<noteq> 1" "0 < v" "extent s = (Finite e0, Infinity)"
  shows "normalize_val s (Finite v) = Finite 0"
  using assms
  by (simp add: normalize_val_def scaleHelper_normalize_def not_le_zero num_sub_def Let_def)

lemma scale_unbounded:
  assumes "base s = Finite b" "1 < b" "0 < p" "extent s = (Finite e0, Infinity)"
  shows "scale s (Finite p) = Infinity"
  using assms
  by (simp add: scale_def scaleHelper_scale_def not_le_zero num_sub_def Let_def signed_infinity_def)

lemma num_le_Finite: "num_le (Finite x) (Finite y) = (x \<le> y)"
  by (auto simp: num_le_def num_eq_def)

text \<open>
  Claim C9. With a base above 1 and an extent whose minimum is finite and below its
  maximum (a finite one or \<open>Infinity\<close>), \<open>normalize\<close> is increasing over the positive
  values and \<open>scale\<close> is increasing over the positive positions.
\<close>

theorem normalize_scale_monotone:
  assumes "base s = Finite b" and "1 < b"
    and "extent s = (Finite e0, e1)" and "num_lt (Finite e0) e1"
  shows "(0 < u \<and> u \<le> v \<longrightarrow>
            num_le (normalize_val s (Finite u)) (normalize_val s (Finite v)))
         \<and> (0 < p \<and> p \<le> q \<longrightarrow>
            num_le (scale s (Finite p)) (scale s (Finite q)))"
proof (cases e1)
  case (Finite e)
  then have lt: "e0 < e" and ext: "extent s = (Finite e0, Finite e)"
    using assms(3,4) by auto
  have "num_le (normalize_val s (Finite u)) (normalize_val s (Finite v))" if "0 < u" "u \<le> v"
  proof -
    have "log b u \<le> log b v" using that assms(2) by simp
    then have "(log b u - e0) / (e - e0) \<le> (log b v - e0) / (e - e0)"
      using lt by (simp add: divide_right_mono)
    then show ?thesis
      using that assms(1,2) ext lt
      by (simp add: normalize_finite [where b = b and ?e0.0 = e0 and ?e1.0 = e] num_le_Finite)
  qed
  moreover have "num_le (scale s (Finite p)) (scale s (Finite q))" if "0 < p" "p \<le> q"
  proof -
    have "p * (e - e0) + e0 \<le> q * (e - e0) + e0"
      using that lt by (simp add: mult_right_mono)
    then have "b powr (p * (e - e0) + e0) \<le> b powr (q * (e - e0) + e0)"
      using assms(2) by simp
    then show ?thesis
      using that assms(1,2) ext
      by (simp add: scale_finite [where b = b and ?e0.0 = e0 and ?e1.0 = e] num_le_Finite)
  qed
  ultimately show ?thesis by blast
next
  case Infinity
  then have ext: "extent s = (Finite e0, Infinity)"
    using assms(3) by simp
  have "num_le (normalize_val s (Finite u)) (normalize_val s (Finite v))" if "0 < u" "u \<le> v"
    using that assms(1,2) ext
    by (simp add: normalize_unbounded [where b = b and ?e0.0 = e0] num_le_Finite)
  moreover have "num_le (scale s (Finite p)) (scale s (Finite q))" if "0 < p" "p \<le> q"
    using that assms(1,2) ext
    by (simp add: scale_unbounded [where b = b and ?e0.0 = e0] num_le_def num_eq_def)
  ultimately show ?thesis by blast
next
  case NaN
  then show ?thesis using assms(3,4) by simp
next
  case NegInfinity
  then show ?thesis using assms(3,4) by simp
qed

text \<open>With a finite extent both functions are strictly increasing there.\<close>

lemma normalize_scale_strictly_monotone:
  assumes "base s = Finite b" and "1 < b"
    and "extent s = (Finite e0, Finite e1)" and "e0 < e1"
  shows "0 < u \<Longrightarrow> u < v \<Longrightarrow> num_lt (normalize_val s (Finite u)) (normalize_val s (Finite v))"
    and "0 < p \<Longrightarrow> p < q \<Longrightarrow> num_lt (scale s (Finite p)) (scale s (Finite q))"
proof -
  show "num_lt (normalize_val s (Finite u)) (normalize_val s (Finite v))" if "0 < u" "u < v"
  proof -
    have "log b u < log b v" using that assms(2) by simp
    then have "(log b u - e0) / (e1 - e0) < (log b v - e0) / (e1 - e0)"
      using assms(4) by (simp add: divide_strict_right_mono)
    then show ?thesis
      using that assms
      by (simp add: normalize_finite [where b = b and ?e0.0 = e0 and ?e1.0 = e1])
  qed
  show "num_lt (scale s (Finite p)) (scale s (Finite q))" if "0 < p" "p < q"
  proof -
    have "p * (e1 - e0) + e0 < q * (e1 - e0) + e0"
      using that assms(4) by simp
    then have "b powr (p * (e1 - e0) + e0) < b powr (q * (e1 - e0) + e0)"
      using assms(2) by simp
    then show ?thesis
      using that assms
      by (simp add: scale_finite [where b = b and ?e0.0 = e0 and ?e1.0 = e1])
  qed
qed

theorem normalize_scale_monotone_witness:
  "num_le (normalize_val (setExtent new_LogScale (Finite 1) (Finite 100)) (Finite 2))
          (normalize_val (setExtent new_LogScale (Finite 1) (Finite 100)) (Finite 50))
   \<and> num_le (scale (setExtent new_LogScale (Finite 1) (Finite 100)) (Finite (1 / 4)))
             (scale (setExtent new_LogScale (Finite 1) (Finite 100)) (Finite (3 / 4)))"
proof -
  have b: "base (new_LogScale\<lparr>extent := (Finite 0, Finite 2)\<rparr>) = Finite 10"
    by (simp add: new_LogScale_def)
  show ?thesis
    using normalize_scale_monotone [of "setExtent new_LogScale (Finite 1) (Finite 100)" 10 0 "Finite 2" 2 50 "1 / 4" "3 / 4"]
    by (simp add: set_1_100 b)
qed

subsection \<open>The loop of \<open>calcNiceTicks\<close>\<close>

lemma grow_interval_exit: "\<not> loop_guard (grow_interval i)"
proof (induction i rule: grow_interval.induct)
  case (1 i)
  then show ?case
    by (cases "loop_guard i") (simp_all add: grow_interval.simps [of i])
qed

lemma not_guard_cases:
  assumes "\<not> loop_guard i"
  shows "isNaN i \<or> i = Finite 0 \<or> num_ge (mathAbs i) (Finite 1)"
  using assms
  by (cases i) (auto simp: loop_guard_def num_gt_def num_ge_def num_le_def num_eq_def)

text \<open>
  Claim C7, as the code has it. When \<open>calcNiceTicks\<close> passes the test of the span,
  the interval it stores is what the loop returns for the seeded interval, and that
  value is \<open>NaN\<close>, zero, or of absolute value at least 1. The bound holds after the
  loop, which is what establishes it; it does not hold before.
\<close>

theorem calcNiceTicks_interval_after_loop:
  assumes "\<not> (num_eq (log_span s) Infinity \<or> num_le (log_span s) (Finite 0))"
  shows "interval (calcNiceTicks quantity round1 s n)
           = grow_interval (seed_interval quantity (log_span s) (or_default n (Finite 10)))
         \<and> (isNaN (interval (calcNiceTicks quantity round1 s n))
             \<or> interval (calcNiceTicks quantity round1 s n) = Finite 0
             \<or> num_ge (mathAbs (interval (calcNiceTicks quantity round1 s n))) (Finite 1))"
proof -
  have i: "interval (calcNiceTicks quantity round1 s n)
      = grow_interval (seed_interval quantity (log_span s) (or_default n (Finite 10)))"
    using assms by (simp add: calcNiceTicks_def log_span_def Let_def)
  show ?thesis
    unfolding i using not_guard_cases [OF grow_interval_exit] by simp
qed

lemma log10_3_lower: "1 / 4 \<le> log 10 (3::real)"
proof -
  have "log 10 ((3::real) ^ 4) = real 4 * log 10 3"
    by (rule log_nat_power) simp
  moreover have "log 10 (10::real) \<le> log 10 (3 ^ 4)"
    by (subst log_le_cancel_iff) simp_all
  ultimately show ?thesis by simp
qed

lemma log10_3_upper: "log 10 (3::real) < 1"
proof -
  have "log 10 (3::real) < log 10 10"
    by (subst log_less_cancel_iff) simp_all
  then show ?thesis by simp
qed

lemma floor_log_small:
  assumes "1 / 10 \<le> x" "x < (1::real)"
  shows "\<lfloor>log 10 x\<rfloor> = - 1"
proof -
  have pos: "0 < x" using assms by simp
  have "log 10 (1 / 10) \<le> log 10 x"
    using assms pos by (subst log_le_cancel_iff) simp_all
  moreover have "log 10 (1 / 10 :: real) = - 1"
    by (simp add: log_divide)
  moreover have "log 10 x < 0"
    using assms pos by simp
  ultimately show ?thesis
    by (intro floor_unique) simp_all
qed

lemma quantity_small:
  assumes "1 / 10 \<le> x" "x < (1::real)"
  shows "numberUtil_quantity (Finite x) = Finite (1 / 10)"
proof -
  have "0 < x" using assms by simp
  then have "numberUtil_quantity (Finite x) = Finite (10 powr of_int \<lfloor>log 10 x\<rfloor>)"
    by simp
  also have "\<lfloor>log 10 x\<rfloor> = - 1"
    using assms by (rule floor_log_small)
  also have "(10::real) powr of_int (- 1) = 1 / 10"
    by (simp add: powr_minus_divide)
  finally show ?thesis .
qed

lemma union_1_3:
  "extent (fst (unionExtent new_LogScale (Finite 1, Finite 3))) = (Finite 0, Finite (log 10 3))"
  by (simp add: unionExtent_def new_LogScale_def Scale_unionExtent_def
      IntervalScale_unionExtent_def num_le_def num_eq_def num_gt_def Let_def log_def)

lemma span_1_3: "log_span (fst (unionExtent new_LogScale (Finite 1, Finite 3))) = Finite (log 10 3)"
  by (simp add: log_span_def union_1_3 num_sub_def)

lemma seed_small:
  assumes "1 / 10 \<le> x" "x < (1::real)"
  shows "seed_interval numberUtil_quantity (Finite x) (Finite 10) = Finite (1 / 10)"
proof -
  have "\<not> 10 / x * (1 / 10) \<le> 1 / 2" "x \<noteq> 0"
    using assms by (simp_all add: field_simps)
  then show ?thesis
    using assms(2)
    by (simp add: seed_interval_def quantity_small [OF assms] num_le_def num_eq_def Let_def
        del: numberUtil_quantity.simps)
qed

lemma grow_tenth: "grow_interval (Finite (1 / 10)) = Finite 1"
proof -
  have "loop_guard (Finite (1 / 10))" "\<not> loop_guard (Finite 1)"
    by (simp_all add: loop_guard_def num_gt_def)
  then show ?thesis
    by (simp add: grow_interval.simps [of "Finite (1 / 10)"] grow_interval.simps [of "Finite 1"])
qed

text \<open>
  The loop runs. After \<open>unionExtent([1, 3])\<close> on the new scale the span is
  \<open>log 10 3\<close>, the step of the span is 0.1, \<open>err\<close> is above 0.5, so the interval is
  0.1 when the loop is reached; the guard holds there and the loop raises the interval
  to 1.
\<close>

theorem calcNiceTicks_loop_executes:
  "seed_interval numberUtil_quantity
      (log_span (fst (unionExtent new_LogScale (Finite 1, Finite 3))))
      (or_default (Finite 10) (Finite 10)) = Finite (1 / 10)
   \<and> loop_guard (Finite (1 / 10))
   \<and> interval (calcNiceTicks numberUtil_quantity (\<lambda>x. x)
        (fst (unionExtent new_LogScale (Finite 1, Finite 3))) (Finite 10)) = Finite 1"
proof -
  let ?s = "fst (unionExtent new_LogScale (Finite 1, Finite 3))"
  have b: "1 / 10 \<le> log 10 (3::real)" "log 10 (3::real) < 1"
    using log10_3_lower log10_3_upper by simp_all
  have seed: "seed_interval numberUtil_quantity (Finite (log 10 3)) (Finite 10) = Finite (1 / 10)"
    using b by (rule seed_small)
  have guard: "loop_guard (Finite (1 / 10))"
    by (simp add: loop_guard_def num_gt_def)
  have pos: "\<not> (num_eq (Finite (log 10 3)) Infinity \<or> num_le (Finite (log 10 3)) (Finite 0))"
    using b by (simp add: num_eq_def num_le_def)
  have "interval (calcNiceTicks numberUtil_quantity (\<lambda>x. x) ?s (Finite 10)) = Finite 1"
    using pos
    by (simp add: calcNiceTicks_def union_1_3 num_sub_def or_default_def seed grow_tenth Let_def)
  then show ?thesis
    using seed guard by (simp add: span_1_3 or_default_def)
qed

theorem calcNiceTicks_interval_after_loop_witness:
  "interval (calcNiceTicks numberUtil_quantity (\<lambda>x. x)
      (fst (unionExtent new_LogScale (Finite 1, Finite 3))) (Finite 10))
     = grow_interval (seed_interval numberUtil_quantity
         (log_span (fst (unionExtent new_LogScale (Finite 1, Finite 3))))
         (or_default (Finite 10) (Finite 10)))
   \<and> (isNaN (interval (calcNiceTicks numberUtil_quantity (\<lambda>x. x)
          (fst (unionExtent new_LogScale (Finite 1, Finite 3))) (Finite 10)))
       \<or> interval (calcNiceTicks numberUtil_quantity (\<lambda>x. x)
          (fst (unionExtent new_LogScale (Finite 1, Finite 3))) (Finite 10)) = Finite 0
       \<or> num_ge (mathAbs (interval (calcNiceTicks numberUtil_quantity (\<lambda>x. x)
          (fst (unionExtent new_LogScale (Finite 1, Finite 3))) (Finite 10)))) (Finite 1))"
proof -
  have "1 / 10 \<le> log 10 (3::real)"
    using log10_3_lower by simp
  then have "\<not> (num_eq (log_span (fst (unionExtent new_LogScale (Finite 1, Finite 3)))) Infinity
     \<or> num_le (log_span (fst (unionExtent new_LogScale (Finite 1, Finite 3)))) (Finite 0))"
    by (simp add: span_1_3 num_eq_def num_le_def)
  then show ?thesis
    by (rule calcNiceTicks_interval_after_loop)
qed

text \<open>
  The same for every step function: whenever the span and the step it gets are both
  between 0 and 1, the guard holds when the loop is reached.
\<close>

lemma loop_reached_for_small_steps:
  assumes "0 < sp" "sp < 1" "quantity (Finite sp) = Finite y" "0 < y" "y < 1"
  shows "loop_guard (seed_interval quantity (Finite sp) (Finite 10))"
proof (cases "10 / sp * y \<le> 1 / 2")
  case True
  then have "y * 20 \<le> sp" using assms(1) by (simp add: field_simps)
  then have "y * 10 < 1" using assms(2) by simp
  then show ?thesis
    using True assms
    by (simp add: seed_interval_def loop_guard_def num_le_def num_eq_def num_gt_def Let_def)
next
  case False
  then show ?thesis
    using assms
    by (simp add: seed_interval_def loop_guard_def num_le_def num_eq_def num_gt_def Let_def)
qed

subsection \<open>Setting and reading the extent\<close>

lemma mathPow_log:
  assumes "0 < b" "b \<noteq> 1" "0 < a"
  shows "mathPow (Finite b) (num_div (mathLog (Finite a)) (mathLog (Finite b))) = Finite a"
proof -
  have "b powr (ln a / ln b) = a"
    using assms by (simp add: powr_def)
  then show ?thesis
    using assms by simp
qed

text \<open>
  Claim C8, as the code has it. With a positive base other than 1 and positive
  boundaries, \<open>getExtent\<close> after \<open>setExtent\<close> gives, for an end that is not fixed,
  the value recovered from the stored log-space boundary, and for a fixed end that
  value rounded to the decimal places of the corresponding end of \<open>originalScale\<close>;
  \<open>setExtent\<close> leaves \<open>originalScale\<close> as it is. The recovered value is the boundary
  itself: exactly here, where finite numbers are exact, and up to rounding in floating
  point, so that a boundary lying half-way between two rounded values can be rounded
  either way by the program.
\<close>

theorem setExtent_getExtent_positive:
  assumes "base s = Finite b" and "0 < b" and "b \<noteq> 1" and "0 < lo" and "0 < hi"
  shows "getExtent (setExtent s (Finite lo) (Finite hi))
           = ((if fixMin s then fixRoundingError (recovered s (Finite lo)) (fst (originalScale s))
               else recovered s (Finite lo)),
              (if fixMax s then fixRoundingError (recovered s (Finite hi)) (snd (originalScale s))
               else recovered s (Finite hi)))
         \<and> recovered s (Finite lo) = Finite lo
         \<and> recovered s (Finite hi) = Finite hi
         \<and> originalScale (setExtent s (Finite lo) (Finite hi)) = originalScale s"
proof -
  let ?s = "setExtent s (Finite lo) (Finite hi)"
  have ext: "extent ?s = (log_position s (Finite lo), log_position s (Finite hi))"
    using assms
    by (simp add: setExtent_def IntervalScale_setExtent_def not_le_zero log_position_def Let_def)
  have same: "base ?s = base s" "fixMin ?s = fixMin s" "fixMax ?s = fixMax s"
    "originalScale ?s = originalScale s"
    by (simp_all add: setExtent_def IntervalScale_setExtent_def Let_def)
  have shape: "getExtent ?s
      = ((if fixMin s then fixRoundingError (recovered s (Finite lo)) (fst (originalScale s))
          else recovered s (Finite lo)),
         (if fixMax s then fixRoundingError (recovered s (Finite hi)) (snd (originalScale s))
          else recovered s (Finite hi)))"
    unfolding getExtent_def Scale_getExtent_def Let_def ext same fst_conv snd_conv recovered_def
    by simp
  have exact: "recovered s (Finite lo) = Finite lo" "recovered s (Finite hi) = Finite hi"
    unfolding recovered_def log_position_def assms(1)
    by (rule mathPow_log; fact)+
  show ?thesis
    using shape exact same(4) by blast
qed

lemma fixed_1_100_fields:
  "base fixed_1_100 = Finite 10" "fixMin fixed_1_100" "fixMax fixed_1_100"
  "originalScale fixed_1_100 = (Finite 1, Finite 100)"
  by (simp_all add: fixed_1_100_def calcNiceExtent_def fixBoth_def truthy_def unionExtent_def
      new_LogScale_def IntervalScale_unionExtent_def Scale_unionExtent_def num_gt_def Let_def)

lemma decimal_places_integer: "of_int \<lfloor>x\<rfloor> = x \<Longrightarrow> decimal_places 20 0 x = 0"
  by (simp add: numeral_eq_Suc)

lemma round_examples:
  "fixRoundingError (Finite (1 / 4)) (Finite 1) = Finite 0"
  "fixRoundingError (Finite (753 / 10)) (Finite 100) = Finite 75"
  by (simp_all add: fixRoundingError_def decimal_places_integer)

lemma precision_examples:
  "numberUtil_getPrecision (Finite (1 / 4)) = 2"
  "numberUtil_getPrecision (Finite (753 / 10)) = 1"
  "numberUtil_getPrecision (Finite 0) = 0"
  "numberUtil_getPrecision (Finite 75) = 0"
  by (simp_all add: numeral_eq_Suc)

theorem setExtent_getExtent_positive_witness:
  "getExtent (setExtent new_LogScale (Finite 1) (Finite 100)) = (Finite 1, Finite 100)
   \<and> getExtent (setExtent fixed_1_100 (Finite (1 / 4)) (Finite (753 / 10)))
       = (Finite 0, Finite 75)"
proof -
  have "getExtent (setExtent new_LogScale (Finite 1) (Finite 100)) = (Finite 1, Finite 100)"
    using setExtent_getExtent_positive [of new_LogScale 10 1 100]
    by (simp add: new_LogScale_def)
  moreover have "getExtent (setExtent fixed_1_100 (Finite (1 / 4)) (Finite (753 / 10)))
       = (Finite 0, Finite 75)"
    using setExtent_getExtent_positive [of fixed_1_100 10 "1 / 4" "753 / 10"]
      fixed_1_100_fields round_examples
    by simp
  ultimately show ?thesis by blast
qed

text \<open>
  On the scale with both ends fixed and \<open>originalScale\<close> at \<open>[1, 100]\<close>,
  \<open>setExtent(0.25, 75.3)\<close> is read back as \<open>(0, 75)\<close>: the boundaries are rounded to
  the zero decimal places of 1 and 100, not to the two and one of the boundaries given.
\<close>

theorem setExtent_getExtent_fixed_rounds_to_original:
  "getExtent (setExtent fixed_1_100 (Finite (1 / 4)) (Finite (753 / 10)))
     = (Finite 0, Finite 75)
   \<and> getExtent (setExtent fixed_1_100 (Finite (1 / 4)) (Finite (753 / 10)))
       \<noteq> (Finite (1 / 4), Finite (753 / 10))
   \<and> numberUtil_getPrecision
         (fst (getExtent (setExtent fixed_1_100 (Finite (1 / 4)) (Finite (753 / 10)))))
       \<noteq> numberUtil_getPrecision (Finite (1 / 4))
   \<and> numberUtil_getPrecision
         (snd (getExtent (setExtent fixed_1_100 (Finite (1 / 4)) (Finite (753 / 10)))))
       \<noteq> numberUtil_getPrecision (Finite (753 / 10))"
proof -
  let ?s = "setExtent fixed_1_100 (Finite (1 / 4)) (Finite (753 / 10))"
  have "extent ?s
     = (num_div (mathLog (Finite (1 / 4))) (mathLog (Finite 10)),
        num_div (mathLog (Finite (753 / 10))) (mathLog (Finite 10)))"
    by (simp add: setExtent_def IntervalScale_setExtent_def fixed_1_100_fields num_le_def
        num_eq_def Let_def)
  moreover have
    "mathPow (Finite 10) (num_div (mathLog (Finite (1 / 4))) (mathLog (Finite 10)))
       = Finite (1 / 4)"
    "mathPow (Finite 10) (num_div (mathLog (Finite (753 / 10))) (mathLog (Finite 10)))
       = Finite (753 / 10)"
    by (rule mathPow_log; simp)+
  moreover have "base ?s = Finite 10" "fixMin ?s" "fixMax ?s"
    "originalScale ?s = (Finite 1, Finite 100)"
    by (simp_all add: setExtent_def IntervalScale_setExtent_def fixed_1_100_fields Let_def)
  ultimately have "getExtent ?s = (Finite 0, Finite 75)"
    unfolding getExtent_def Scale_getExtent_def Let_def
    by (simp only: fst_conv snd_conv round_examples if_True)
  then show ?thesis
    using precision_examples by simp
qed

subsection \<open>The pair handed to \<open>unionExtent\<close>\<close>

text \<open>
  Claim C10. After \<open>unionExtent\<close> the pair of the caller holds the log-space images of
  the boundaries it held before (0 for a boundary that is not above zero, its
  log-space position otherwise), while \<open>originalScale\<close> has been widened by the
  boundaries as they were given.
\<close>

theorem unionExtent_rewrites_argument:
  "snd (unionExtent s (lo, hi))
     = ((if num_le lo (Finite 0) then Finite 0 else log_position s lo),
        (if num_le hi (Finite 0) then Finite 0 else log_position s hi))
   \<and> originalScale (fst (unionExtent s (lo, hi)))
       = IntervalScale_unionExtent (originalScale s) (lo, hi)"
  by (simp add: unionExtent_def log_position_def Let_def)

theorem unionExtent_rewrites_argument_witness:
  "snd (unionExtent new_LogScale (Finite (- 5), Finite 100)) = (Finite 0, Finite 2)
   \<and> originalScale (fst (unionExtent new_LogScale (Finite (- 5), Finite 100)))
       = (Finite (- 5), Finite 100)"
  using unionExtent_rewrites_argument [of new_LogScale "Finite (- 5)" "Finite 100"]
  by (simp add: log_position_def new_LogScale_def IntervalScale_unionExtent_def
      Scale_unionExtent_def num_le_def num_eq_def num_gt_def ln_100)

end
